theory Spec2Isabelle
  imports Complex_Main
begin

section \<open>Vectors and matrices of the registration code\<close>

text \<open>
  \<^verbatim>\<open>registration_mv.py\<close> reads the matrix, the center and the translation of a SimpleITK
  transform into numpy arrays: the matrix reshaped to 3 by 3, the other two as vectors of
  length 3. The numbers are numpy's float64; the transform algebra below is stated over
  the real numbers they approximate, so rounding is not part of the model.
\<close>

type_synonym vec3 = "real \<times> real \<times> real"

text \<open>A 3 by 3 matrix, as the three rows of \<^verbatim>\<open>reshape(3, 3)\<close>.\<close>

type_synonym mat3 = "vec3 \<times> vec3 \<times> vec3"

fun vadd :: "vec3 \<Rightarrow> vec3 \<Rightarrow> vec3" where
  "vadd (a, b, c) (x, y, z) = (a + x, b + y, c + z)"

fun vsub :: "vec3 \<Rightarrow> vec3 \<Rightarrow> vec3" where
  "vsub (a, b, c) (x, y, z) = (a - x, b - y, c - z)"

text \<open>The inner product of two vectors, the building block of \<^verbatim>\<open>numpy.dot\<close>.\<close>

fun inner3 :: "vec3 \<Rightarrow> vec3 \<Rightarrow> real" where
  "inner3 (a, b, c) (x, y, z) = a * x + b * y + c * z"

text \<open>\<^verbatim>\<open>numpy.dot(A, v)\<close> for a matrix and a vector.\<close>

fun dot_mv :: "mat3 \<Rightarrow> vec3 \<Rightarrow> vec3" where
  "dot_mv (r0, r1, r2) v = (inner3 r0 v, inner3 r1 v, inner3 r2 v)"

fun col0 :: "mat3 \<Rightarrow> vec3" where
  "col0 ((a, _, _), (d, _, _), (g, _, _)) = (a, d, g)"

fun col1 :: "mat3 \<Rightarrow> vec3" where
  "col1 ((_, b, _), (_, e, _), (_, h, _)) = (b, e, h)"

fun col2 :: "mat3 \<Rightarrow> vec3" where
  "col2 ((_, _, c), (_, _, f), (_, _, i)) = (c, f, i)"

text \<open>\<^verbatim>\<open>numpy.dot(A, B)\<close> for two matrices: rows of \<open>A\<close> against columns of \<open>B\<close>.\<close>

fun dot_mm :: "mat3 \<Rightarrow> mat3 \<Rightarrow> mat3" where
  "dot_mm (r0, r1, r2) B =
     ((inner3 r0 (col0 B), inner3 r0 (col1 B), inner3 r0 (col2 B)),
      (inner3 r1 (col0 B), inner3 r1 (col1 B), inner3 r1 (col2 B)),
      (inner3 r2 (col0 B), inner3 r2 (col1 B), inner3 r2 (col2 B)))"

text \<open>The components of a vector as a list, the way Python indexes them.\<close>

fun vec3_list :: "vec3 \<Rightarrow> real list" where
  "vec3_list (a, b, c) = [a, b, c]"

definition zero3 :: vec3 where
  "zero3 = (0, 0, 0)"

definition identity3 :: mat3 where
  "identity3 = ((1, 0, 0), (0, 1, 0), (0, 0, 1))"

section \<open>Centered affine transforms\<close>

text \<open>
  A SimpleITK matrix transform (\<^verbatim>\<open>Euler3DTransform\<close>, \<^verbatim>\<open>AffineTransform\<close>) as the three
  values the code reads with \<^verbatim>\<open>GetMatrix\<close>, \<^verbatim>\<open>GetCenter\<close> and \<^verbatim>\<open>GetTranslation\<close>.
\<close>

record affine =
  matrix :: mat3
  center :: vec3
  translation :: vec3

text \<open>
  \<^verbatim>\<open>sitk.AffineTransform(matrix, translation, center)\<close>, with the arguments in the order
  of the constructor call in \<^verbatim>\<open>execute\<close>.
\<close>

definition AffineTransform :: "mat3 \<Rightarrow> vec3 \<Rightarrow> vec3 \<Rightarrow> affine" where
  "AffineTransform m t c = \<lparr>matrix = m, center = c, translation = t\<rparr>"

text \<open>
  The point map of a centered transform, as the toolkit defines it for every matrix
  transform: \<open>x\<close> goes to \<open>A (x - c) + t + c\<close>.
\<close>

definition TransformPoint :: "affine \<Rightarrow> vec3 \<Rightarrow> vec3" where
  "TransformPoint T x =
     vadd (vadd (dot_mv (matrix T) (vsub x (center T))) (translation T)) (center T)"

text \<open>
  The last part of \<^verbatim>\<open>execute\<close>: the manual transform and the optimizer's result are
  combined into one transform.
  \<^verbatim>\<open>
  combined_mat = numpy.dot(A0, A1)
  combined_center = c1
  combined_translation = numpy.dot(A0, t1 + c1 - c0) + t0 + c0 - c1
  self.final_transform = sitk.AffineTransform(combined_mat.flatten(),
                                              combined_translation,
                                              combined_center)
  \<close>
\<close>

definition combine_transforms :: "affine \<Rightarrow> affine \<Rightarrow> affine" where
  "combine_transforms manual_transform result =
     (let A0 = matrix manual_transform;
          c0 = center manual_transform;
          t0 = translation manual_transform;
          A1 = matrix result;
          c1 = center result;
          t1 = translation result;
          combined_mat = dot_mm A0 A1;
          combined_center = c1;
          combined_translation =
            vsub (vadd (vadd (dot_mv A0 (vsub (vadd t1 c1) c0)) t0) c0) c1
      in AffineTransform combined_mat combined_translation combined_center)"

section \<open>Images and the manual transform\<close>

text \<open>
  A SimpleITK image, as far as \<^verbatim>\<open>execute\<close> looks at it: the size in voxels, the voxel
  size, the origin and the direction matrix, and the pixel values.
\<close>

record image =
  GetSize :: "nat \<times> nat \<times> nat"
  GetSpacing :: vec3
  GetOrigin :: vec3
  GetDirection :: mat3
  GetPixels :: "real list"

text \<open>
  The toolkit's map from a continuous index to a physical point: the index is scaled by
  the voxel size, turned by the direction matrix and moved by the origin.
\<close>

fun scale3 :: "vec3 \<Rightarrow> vec3 \<Rightarrow> vec3" where
  "scale3 (a, b, c) (x, y, z) = (a * x, b * y, c * z)"

definition TransformContinuousIndexToPhysicalPoint :: "image \<Rightarrow> vec3 \<Rightarrow> vec3" where
  "TransformContinuousIndexToPhysicalPoint img idx =
     vadd (dot_mv (GetDirection img) (scale3 (GetSpacing img) idx)) (GetOrigin img)"

text \<open>\<^verbatim>\<open>[(index - 1) / 2.0 for index in moving_image.GetSize()]\<close>\<close>

fun index_center :: "nat \<times> nat \<times> nat \<Rightarrow> vec3" where
  "index_center (nx, ny, nz) = ((real nx - 1) / 2, (real ny - 1) / 2, (real nz - 1) / 2)"

text \<open>
  \<^verbatim>\<open>sitk.Euler3DTransform\<close>: a center, three rotation angles (about x, y and z, in
  radians) and a translation.
\<close>

record euler3d =
  euler_center :: vec3
  euler_rotation :: vec3
  euler_translation :: vec3

definition Euler3DTransform :: euler3d where
  "Euler3DTransform = \<lparr>euler_center = zero3, euler_rotation = zero3, euler_translation = zero3\<rparr>"

definition SetCenter :: "vec3 \<Rightarrow> euler3d \<Rightarrow> euler3d" where
  "SetCenter c T = T\<lparr>euler_center := c\<rparr>"

definition SetRotation :: "real \<Rightarrow> real \<Rightarrow> real \<Rightarrow> euler3d \<Rightarrow> euler3d" where
  "SetRotation ax ay az T = T\<lparr>euler_rotation := (ax, ay, az)\<rparr>"

definition SetTranslation :: "vec3 \<Rightarrow> euler3d \<Rightarrow> euler3d" where
  "SetTranslation t T = T\<lparr>euler_translation := t\<rparr>"

text \<open>The rotation matrices about the three axes, and the matrix of an Euler transform
  in the toolkit's default order (z, then x, then y).\<close>

definition rot_x :: "real \<Rightarrow> mat3" where
  "rot_x a = ((1, 0, 0), (0, cos a, - sin a), (0, sin a, cos a))"

definition rot_y :: "real \<Rightarrow> mat3" where
  "rot_y a = ((cos a, 0, sin a), (0, 1, 0), (- sin a, 0, cos a))"

definition rot_z :: "real \<Rightarrow> mat3" where
  "rot_z a = ((cos a, - sin a, 0), (sin a, cos a, 0), (0, 0, 1))"

fun euler_matrix :: "vec3 \<Rightarrow> mat3" where
  "euler_matrix (ax, ay, az) = dot_mm (rot_z az) (dot_mm (rot_x ax) (rot_y ay))"

text \<open>What \<^verbatim>\<open>GetMatrix\<close>, \<^verbatim>\<open>GetCenter\<close> and \<^verbatim>\<open>GetTranslation\<close> read from the manual
  transform.\<close>

definition euler_affine :: "euler3d \<Rightarrow> affine" where
  "euler_affine T =
     \<lparr>matrix = euler_matrix (euler_rotation T), center = euler_center T,
      translation = euler_translation T\<rparr>"

section \<open>The archive\<close>

datatype image_type = Original | Registered | Psf

datatype error =
    ValueError string
  | NameError string
  | NotFoundError
  | DuplicateKeyError
  | MissingRegisteredViewError
  | IOError string
  | AttributeError string
  | ZeroDivisionError
  | RuntimeError string

text \<open>A stored view: the image and the rotation angle it was acquired at.\<close>

record 'a view =
  view_image :: image
  view_angle :: 'a

text \<open>A stored transform: its type tag, its parameters and its fixed parameters.\<close>

record transform_entry =
  transform_type :: string
  params :: "real list"
  fixed_params :: "real list"

text \<open>
  Modelled from the spec: the class \<^verbatim>\<open>ImageData\<close> of \<^verbatim>\<open>supertomo/io/image_data.py\<close>,
  which the registration and the import script call and which is not among the sources.
  The archive keeps at most one view per (type, scale, index, channel), at most one
  transform per (scale, index, channel), and the view that \<^verbatim>\<open>set_active_image\<close>
  selected last. The key parts have the type \<open>'k\<close> and the angle the type \<open>'a\<close>:
  integers and a real number in the registration, the strings cut out of a file name in
  the import script.
\<close>

record ('k, 'a) archive =
  views :: "image_type \<times> 'k \<times> 'k \<times> 'k \<rightharpoonup> 'a view"
  transforms :: "'k \<times> 'k \<times> 'k \<rightharpoonup> transform_entry"
  active :: "(image_type \<times> 'k \<times> 'k \<times> 'k) option"

text \<open>Modelled from the spec: \<^verbatim>\<open>ImageData.check_if_exists\<close>, true iff a view is stored
  under the key.\<close>

definition check_if_exists :: "image_type \<Rightarrow> 'k \<Rightarrow> 'k \<Rightarrow> 'k \<Rightarrow> ('k, 'a) archive \<Rightarrow> bool" where
  "check_if_exists ty index channel scale d =
     (case views d (ty, scale, index, channel) of None \<Rightarrow> False | Some _ \<Rightarrow> True)"

text \<open>Modelled from the spec: \<^verbatim>\<open>ImageData.set_active_image\<close>, the first half of the
  spec's lookup of a view; an absent key is \<^verbatim>\<open>NotFoundError\<close>.\<close>

definition set_active_image ::
  "'k \<Rightarrow> 'k \<Rightarrow> 'k \<Rightarrow> image_type \<Rightarrow> ('k, 'a) archive \<Rightarrow> error + ('k, 'a) archive" where
  "set_active_image index channel scale ty d =
     (case views d (ty, scale, index, channel) of
        None \<Rightarrow> Inl NotFoundError
      | Some _ \<Rightarrow> Inr (d\<lparr>active := Some (ty, scale, index, channel)\<rparr>))"

text \<open>Modelled from the spec: the view that is active, if any.\<close>

definition active_view :: "('k, 'a) archive \<Rightarrow> error + 'a view" where
  "active_view d =
     (case active d of
        None \<Rightarrow> Inl NotFoundError
      | Some k \<Rightarrow> (case views d k of None \<Rightarrow> Inl NotFoundError | Some v \<Rightarrow> Inr v))"

text \<open>Modelled from the spec: \<^verbatim>\<open>ImageData.get_itk_image\<close>, the image of the active
  view.\<close>

definition get_itk_image :: "('k, 'a) archive \<Rightarrow> error + image" where
  "get_itk_image d = (case active_view d of Inl e \<Rightarrow> Inl e | Inr v \<Rightarrow> Inr (view_image v))"

text \<open>Modelled from the spec: \<^verbatim>\<open>ImageData.get_rotation_angle\<close>, the stored angle of the
  active view. The archive keeps angles in one unit, here radians, the unit asked for.\<close>

definition get_rotation_angle :: "('k, 'a) archive \<Rightarrow> error + 'a" where
  "get_rotation_angle d = (case active_view d of Inl e \<Rightarrow> Inl e | Inr v \<Rightarrow> Inr (view_angle v))"

text \<open>Modelled from the spec: \<^verbatim>\<open>ImageData.add_registered_image\<close>, the spec's
  \<^verbatim>\<open>add_view\<close> for the type \<^verbatim>\<open>registered\<close>; a key that is taken is
  \<^verbatim>\<open>DuplicateKeyError\<close>.\<close>

definition add_registered_image ::
  "'a view \<Rightarrow> 'k \<Rightarrow> 'k \<Rightarrow> 'k \<Rightarrow> ('k, 'a) archive \<Rightarrow> error + ('k, 'a) archive" where
  "add_registered_image v scale index channel d =
     (case views d (Registered, scale, index, channel) of
        Some _ \<Rightarrow> Inl DuplicateKeyError
      | None \<Rightarrow> Inr (d\<lparr>views := (views d)((Registered, scale, index, channel) \<mapsto> v)\<rparr>))"

text \<open>Modelled from the spec: \<^verbatim>\<open>ImageData.add_transform\<close>, which fails with
  \<^verbatim>\<open>MissingRegisteredViewError\<close> when no registered view is stored under the key and
  stores the transform otherwise.\<close>

definition add_transform ::
  "'k \<Rightarrow> 'k \<Rightarrow> 'k \<Rightarrow> transform_entry \<Rightarrow> ('k, 'a) archive \<Rightarrow> error + ('k, 'a) archive" where
  "add_transform scale index channel t d =
     (case views d (Registered, scale, index, channel) of
        None \<Rightarrow> Inl MissingRegisteredViewError
      | Some _ \<Rightarrow> Inr (d\<lparr>transforms := (transforms d)((scale, index, channel) \<mapsto> t)\<rparr>))"

section \<open>The import script\<close>

text \<open>Python's string tests \<^verbatim>\<open>s.startswith(p)\<close>, \<^verbatim>\<open>s.endswith(p)\<close> and
  \<^verbatim>\<open>p in s\<close>.\<close>

fun startswith :: "string \<Rightarrow> string \<Rightarrow> bool" where
  "startswith s [] = True"
| "startswith [] (p # ps) = False"
| "startswith (c # s) (p # ps) = (c = p \<and> startswith s ps)"

definition endswith :: "string \<Rightarrow> string \<Rightarrow> bool" where
  "endswith s p = startswith (rev s) (rev p)"

fun contains :: "string \<Rightarrow> string \<Rightarrow> bool" where
  "contains [] p = (p = [])"
| "contains (c # s) p = (if startswith (c # s) p then True else contains s p)"

text \<open>
  \<^verbatim>\<open>s.split(sep)\<close> for a separator that is not empty (the script's separators are
  literals): the pieces of \<open>s\<close> between the occurrences of \<open>sep\<close>, found from the left.
  \<open>acc\<close> holds the piece being read, reversed.
\<close>

function split_from :: "string \<Rightarrow> string \<Rightarrow> string \<Rightarrow> string list" where
  "split_from sep acc [] = [rev acc]"
| "split_from sep acc (c # s) =
     (if sep \<noteq> [] \<and> startswith (c # s) sep
      then rev acc # split_from sep [] (drop (length sep) (c # s))
      else split_from sep (c # acc) s)"
  by pat_completeness auto
termination
  by (relation "measure (\<lambda>(sep, acc, s). length s)") (auto simp: neq_Nil_conv)

definition split_str :: "string \<Rightarrow> string \<Rightarrow> string list" where
  "split_str s sep = split_from sep [] s"

text \<open>\<^verbatim>\<open>os.path.join(directory, name)\<close> for two parts.\<close>

definition path_join :: "string \<Rightarrow> string \<Rightarrow> string" where
  "path_join directory name =
     (if startswith name ''/'' then name
      else if directory = [] \<or> endswith directory ''/'' then directory @ name
      else directory @ ''/'' @ name)"

text \<open>
  What the second loop of \<^verbatim>\<open>main\<close> gets from outside the archive: the reader of
  transform files, and the resampling of the moving image through the transform of a
  file onto the grid of the reference (\<^verbatim>\<open>read_itk_transform(full_path, return_itk=True)\<close>,
  \<^verbatim>\<open>resample_image\<close> and \<^verbatim>\<open>convert_to_numpy\<close>). Either gives nothing for a file it
  cannot read; the script then ends with the reader's exception, here \<open>IOError\<close> with the
  path.
\<close>

record import_env =
  read_itk_transform :: "string \<Rightarrow> transform_entry option"
  resample_registered :: "string \<Rightarrow> image \<Rightarrow> image \<Rightarrow> image option"

text \<open>
  One pass of the loop "Add transforms for registered images" of \<^verbatim>\<open>main\<close>. \<open>params_c\<close>
  is the tuple of that name from \<^verbatim>\<open>supertomo/definitions.py\<close>, which is not among the
  sources. \<open>image_name\<close> is the variable the first loop of \<^verbatim>\<open>main\<close> left behind: the
  last name it listed, or nothing when the directory was empty; the key is cut out of it,
  not out of \<open>transform_name\<close>. The reference view has the index 0, written as the archive
  writes it in a key.
  \<^verbatim>\<open>
  if not transform_name.endswith(".txt"):
      continue
  if not all(x in transform_name for x in params_c) or not "transform" in transform_name:
      continue
  scale = image_name.split("scale_")[-1].split("_index")[0]
  index = image_name.split("index_")[-1].split("_channel")[0]
  channel = image_name.split("channel_")[-1].split("_angle")[0]
  angle = image_name.split("angle_")[-1].split(".")[0]
  full_path = os.path.join(directory, transform_name)
  if not data.check_if_exists("registered", index, channel, scale):
      data.set_active_image(0, channel, scale, "original")
      reference = data.get_itk_image()
      data.set_active_image(index, channel, scale, "original")
      moving = data.get_itk_image()
      transform = utils.read_itk_transform(full_path, return_itk=True)
      registered = itkutils.resample_image(moving, transform, reference=reference)
      registered, spacing = itkutils.convert_to_numpy(registered)
      data.add_registered_image(registered, scale, index, channel, angle, spacing)
  transform_type, params, fixed_params = utils.read_itk_transform(full_path)
  data.add_transform(scale, index, channel, params, fixed_params, transform_type)
  \<close>
\<close>

definition resample_missing ::
  "import_env \<Rightarrow> string \<Rightarrow> string \<Rightarrow> string \<Rightarrow> string \<Rightarrow> string \<Rightarrow>
   (string, string) archive \<Rightarrow> error + (string, string) archive" where
  "resample_missing env full_path scale index channel angle data =
     (case set_active_image ''0'' channel scale Original data of
        Inl e \<Rightarrow> Inl e
      | Inr d1 \<Rightarrow>
     (case get_itk_image d1 of
        Inl e \<Rightarrow> Inl e
      | Inr reference \<Rightarrow>
     (case set_active_image index channel scale Original d1 of
        Inl e \<Rightarrow> Inl e
      | Inr d2 \<Rightarrow>
     (case get_itk_image d2 of
        Inl e \<Rightarrow> Inl e
      | Inr moving \<Rightarrow>
     (case resample_registered env full_path moving reference of
        None \<Rightarrow> Inl (IOError full_path)
      | Some registered \<Rightarrow>
          add_registered_image \<lparr>view_image = registered, view_angle = angle\<rparr>
            scale index channel d2)))))"

text \<open>The rest of the pass once the key is known: the registered view is computed if
  the archive has none under the key, then the transform is read and stored.\<close>

definition store_transform ::
  "import_env \<Rightarrow> string \<Rightarrow> string \<Rightarrow> string \<Rightarrow> string \<Rightarrow> string \<Rightarrow>
   (string, string) archive \<Rightarrow> error + (string, string) archive" where
  "store_transform env full_path scale index channel angle data =
     (case (if \<not> check_if_exists Registered index channel scale data
            then resample_missing env full_path scale index channel angle data
            else Inr data) of
        Inl e \<Rightarrow> Inl e
      | Inr d3 \<Rightarrow>
          (case read_itk_transform env full_path of
             None \<Rightarrow> Inl (IOError full_path)
           | Some t \<Rightarrow> add_transform scale index channel t d3))"

definition import_transform ::
  "import_env \<Rightarrow> string list \<Rightarrow> string \<Rightarrow> string option \<Rightarrow> string \<Rightarrow>
   (string, string) archive \<Rightarrow> error + (string, string) archive" where
  "import_transform env params_c directory image_name transform_name data =
     (if \<not> endswith transform_name ''.txt'' then Inr data
      else if \<not> list_all (\<lambda>x. contains transform_name x) params_c
              \<or> \<not> contains transform_name ''transform'' then Inr data
      else
        (case image_name of
           None \<Rightarrow> Inl (NameError ''image_name'')
         | Some image_name \<Rightarrow>
             (let scale = hd (split_str (last (split_str image_name ''scale_'')) ''_index'');
                  index = hd (split_str (last (split_str image_name ''index_'')) ''_channel'');
                  channel = hd (split_str (last (split_str image_name ''channel_'')) ''_angle'');
                  angle = hd (split_str (last (split_str image_name ''angle_'')) ''.'');
                  full_path = path_join directory transform_name
              in store_transform env full_path scale index channel angle data)))"

text \<open>The loop over \<^verbatim>\<open>os.listdir(directory)\<close>; an exception ends it.\<close>

fun import_transforms ::
  "import_env \<Rightarrow> string list \<Rightarrow> string \<Rightarrow> string option \<Rightarrow> string list \<Rightarrow>
   (string, string) archive \<Rightarrow> error + (string, string) archive" where
  "import_transforms env params_c directory image_name [] data = Inr data"
| "import_transforms env params_c directory image_name (transform_name # rest) data =
     (case import_transform env params_c directory image_name transform_name data of
        Inl e \<Rightarrow> Inl e
      | Inr d \<Rightarrow> import_transforms env params_c directory image_name rest d)"

text \<open>No transform is orphaned: every key with a transform has a registered view.\<close>

definition no_orphans :: "('k, 'a) archive \<Rightarrow> bool" where
  "no_orphans d =
     (\<forall>sc ix ch. transforms d (sc, ix, ch) \<noteq> None \<longrightarrow> views d (Registered, sc, ix, ch) \<noteq> None)"

section \<open>The registration of two views\<close>

text \<open>The similarity metrics the constructor can set on the toolkit's registration
  method; the mutual information carries its number of histogram bins.\<close>

datatype metric = MattesMutualInformation nat | Correlation | MeanSquares

text \<open>The command line options that \<^verbatim>\<open>MultiViewRegistration\<close> reads.\<close>

record options =
  registration_method :: string
  mattes_histogram_bins :: nat
  sampling_percentage :: real
  learning_rate :: real
  min_step_length :: real
  registration_max_iterations :: nat
  relaxation_factor :: real
  channel :: int
  scale :: int
  rot_axis :: int
  x_offset :: real
  y_offset :: real
  z_offset :: real

text \<open>\<^verbatim>\<open>sitk.ImageRegistrationMethod\<close>, as the constructor configures it: the settings
  of the regular step gradient descent, the metric and its sampling percentage. What the
  constructor sets to the same value for every object (the scales from the Jacobian, the
  linear interpolator, the random sampling) is not a field.\<close>

record registration_method_state =
  optimizer :: "real \<times> real \<times> nat \<times> real"
  metric :: metric
  metric_sampling_percentage :: real

text \<open>The fields of a \<^verbatim>\<open>MultiViewRegistration\<close> object.\<close>

record registration_state =
  data :: "(int, real) archive"
  options :: options
  fixed_index :: int
  moving_index :: int
  final_transform :: "affine option"
  registration :: registration_method_state

text \<open>
  \<^verbatim>\<open>MultiViewRegistration.__init__\<close>. The metric is chosen by name; any other name
  raises \<^verbatim>\<open>ValueError("Unknown metric: %s" % options.registration_method)\<close>.
\<close>

definition new_registration :: "(int, real) archive \<Rightarrow> options \<Rightarrow> metric \<Rightarrow> registration_state" where
  "new_registration d opts m =
     \<lparr>data = d, options = opts, fixed_index = 0, moving_index = 1, final_transform = None,
      registration =
        \<lparr>optimizer = (learning_rate opts, min_step_length opts,
                      registration_max_iterations opts, relaxation_factor opts),
         metric = m,
         metric_sampling_percentage = sampling_percentage opts\<rparr>\<rparr>"

definition MultiViewRegistration ::
  "(int, real) archive \<Rightarrow> options \<Rightarrow> error + registration_state" where
  "MultiViewRegistration d opts =
     (if registration_method opts = ''mattes''
      then Inr (new_registration d opts (MattesMutualInformation (mattes_histogram_bins opts)))
      else if registration_method opts = ''correlation''
      then Inr (new_registration d opts Correlation)
      else if registration_method opts = ''mean-squared-difference''
      then Inr (new_registration d opts MeanSquares)
      else Inl (ValueError (''Unknown metric: '' @ registration_method opts)))"

text \<open>
  The initialization in \<^verbatim>\<open>execute\<close>: the manual transform from the moving image, the
  rotation angle of the moving view and the options.
  \<^verbatim>\<open>
  manual_transform = sitk.Euler3DTransform()
  rotation_center = moving_image.TransformContinuousIndexToPhysicalPoint(
      [(index - 1) / 2.0 for index in moving_image.GetSize()])
  manual_transform.SetCenter(rotation_center)
  initial_rotation = self.data.get_rotation_angle(radians=True)
  if self.options.rot_axis == 0:
      manual_transform.SetRotation(initial_rotation, 0, 0)
  elif self.options.rot_axis == 1:
      manual_transform.SetRotation(0, initial_rotation, 0)
  else:
      manual_transform.SetRotation(0, 0, initial_rotation)
  manual_transform.SetTranslation([self.options.y_offset,
                            self.options.x_offset,
                            self.options.z_offset])
  \<close>
\<close>

definition coarse_align :: "options \<Rightarrow> image \<Rightarrow> real \<Rightarrow> euler3d" where
  "coarse_align opts moving_image initial_rotation =
     (let manual_transform = Euler3DTransform;
          rotation_center =
            TransformContinuousIndexToPhysicalPoint moving_image
              (index_center (GetSize moving_image));
          manual_transform = SetCenter rotation_center manual_transform;
          manual_transform =
            (if rot_axis opts = 0 then SetRotation initial_rotation 0 0 manual_transform
             else if rot_axis opts = 1 then SetRotation 0 initial_rotation 0 manual_transform
             else SetRotation 0 0 initial_rotation manual_transform)
      in SetTranslation (y_offset opts, x_offset opts, z_offset opts) manual_transform)"

text \<open>
  What \<^verbatim>\<open>execute\<close> gets from outside: the user's answer to the question whether to
  skip a view that has a result, the resampling of the moving image through the manual
  transform (\<^verbatim>\<open>itkutils.resample_image\<close>), and the toolkit's registration of the fixed
  image and the resampled moving image, from the moments initializer and the masks to the
  affine transform of the result, which may fail.
\<close>

record toolkit =
  get_user_input :: "string \<Rightarrow> bool"
  resample_image :: "image \<Rightarrow> euler3d \<Rightarrow> image"
  register_images :: "registration_method_state \<Rightarrow> image \<Rightarrow> image \<Rightarrow> error + affine"

text \<open>
  The part of \<^verbatim>\<open>execute\<close> from "Get moving image" to the end of the initialization:
  the moving view is made the active one, its image and its rotation angle are read, and
  the manual transform is built. The archive, the moving image and the manual transform
  are what the rest of the method goes on with.
\<close>

definition initialization ::
  "registration_state \<Rightarrow> (int, real) archive \<Rightarrow> error + ((int, real) archive \<times> image \<times> euler3d)"
  where
  "initialization self d1 =
     (case set_active_image (moving_index self) (channel (options self)) (scale (options self))
             Original d1 of
        Inl e \<Rightarrow> Inl e
      | Inr d2 \<Rightarrow>
     (case get_itk_image d2 of
        Inl e \<Rightarrow> Inl e
      | Inr moving_image \<Rightarrow>
     (case get_rotation_angle d2 of
        Inl e \<Rightarrow> Inl e
      | Inr initial_rotation \<Rightarrow>
          Inr (d2, moving_image, coarse_align (options self) moving_image initial_rotation))))"

text \<open>
  The check at the start of \<^verbatim>\<open>execute\<close>: a registered view exists for the moving
  index and the user, asked then and only then, wants to skip it.
\<close>

definition skip_requested :: "toolkit \<Rightarrow> registration_state \<Rightarrow> (int, real) archive \<Rightarrow> bool" where
  "skip_requested tk self d1 =
     (if check_if_exists Registered (moving_index self) (channel (options self))
           (scale (options self)) d1
      then get_user_input tk
             (''A result already exists for the view %i. '' @
              ''Do you want to skip registering it?'')
      else False)"

text \<open>
  \<^verbatim>\<open>MultiViewRegistration.execute\<close>. The object is returned as the method leaves it. The
  method reads the archive and selects its active image; it calls no method that stores
  a view or a transform.
\<close>

definition execute :: "toolkit \<Rightarrow> registration_state \<Rightarrow> error + registration_state" where
  "execute tk self =
     (case set_active_image (fixed_index self) (channel (options self)) (scale (options self))
             Original (data self) of
        Inl e \<Rightarrow> Inl e
      | Inr d1 \<Rightarrow>
     (case get_itk_image d1 of
        Inl e \<Rightarrow> Inl e
      | Inr fixed_image \<Rightarrow>
          if skip_requested tk self d1 then Inr (self\<lparr>data := d1\<rparr>)
          else
     (case initialization self d1 of
        Inl e \<Rightarrow> Inl e
      | Inr (d2, moving_image, manual_transform) \<Rightarrow>
          (let modified_moving_image = resample_image tk moving_image manual_transform
           in case register_images tk (registration self) fixed_image modified_moving_image of
                Inl e \<Rightarrow> Inl e
              | Inr result \<Rightarrow>
                  Inr (self\<lparr>data := d2,
                            final_transform :=
                              Some (combine_transforms (euler_affine manual_transform) result)\<rparr>)))))"

definition set_moving_image :: "int \<Rightarrow> registration_state \<Rightarrow> registration_state" where
  "set_moving_image index self = self\<lparr>moving_index := index\<rparr>"

definition set_fixed_image :: "int \<Rightarrow> registration_state \<Rightarrow> registration_state" where
  "set_fixed_image index self = self\<lparr>fixed_index := index\<rparr>"

text \<open>\<^verbatim>\<open>get_final_transform\<close> returns the field, which is \<^verbatim>\<open>None\<close> until \<^verbatim>\<open>execute\<close>
  has set it; it has no other branch.\<close>

definition get_final_transform :: "registration_state \<Rightarrow> affine option" where
  "get_final_transform self = final_transform self"

section \<open>Floating point values and arrays\<close>

text \<open>
  A floating point value of numpy: a finite number, the negative zero, an infinity or
  not-a-number. \<open>Fin 0\<close> is the positive zero. A finite value is the real number it
  stands for; rounding, overflow and underflow of the arithmetic are not part of the
  model.
\<close>

datatype fl = Fin real | NegZero | PInf | NInf | NaN

fun is_finite :: "fl \<Rightarrow> bool" where
  "is_finite (Fin a) = True"
| "is_finite NegZero = True"
| "is_finite _ = False"

fun is_inf :: "fl \<Rightarrow> bool" where
  "is_inf PInf = True"
| "is_inf NInf = True"
| "is_inf _ = False"

fun is_zero :: "fl \<Rightarrow> bool" where
  "is_zero (Fin a) = (a = 0)"
| "is_zero NegZero = True"
| "is_zero _ = False"

text \<open>The sign bit.\<close>

fun sign_neg :: "fl \<Rightarrow> bool" where
  "sign_neg (Fin a) = (a < 0)"
| "sign_neg NegZero = True"
| "sign_neg NInf = True"
| "sign_neg _ = False"

text \<open>The real number a finite value stands for.\<close>

fun fl_val :: "fl \<Rightarrow> real" where
  "fl_val (Fin a) = a"
| "fl_val _ = 0"

definition signed_inf :: "bool \<Rightarrow> fl" where
  "signed_inf negative = (if negative then NInf else PInf)"

definition signed_zero :: "bool \<Rightarrow> fl" where
  "signed_zero negative = (if negative then NegZero else Fin 0)"

text \<open>
  Division of two floating point values: not-a-number for an operand that is
  not-a-number, for two infinities and for two zeros; an infinity for an infinite
  numerator and for a zero denominator; a zero for an infinite denominator and for a zero
  numerator; the sign is the product of the signs.
\<close>

definition fl_div :: "fl \<Rightarrow> fl \<Rightarrow> fl" where
  "fl_div x y =
     (if x = NaN \<or> y = NaN then NaN
      else if is_inf x then (if is_inf y then NaN else signed_inf (sign_neg x \<noteq> sign_neg y))
      else if is_inf y then signed_zero (sign_neg x \<noteq> sign_neg y)
      else if is_zero y then (if is_zero x then NaN else signed_inf (sign_neg x \<noteq> sign_neg y))
      else if is_zero x then signed_zero (sign_neg x \<noteq> sign_neg y)
      else Fin (fl_val x / fl_val y))"

text \<open>The largest finite value of the type float64.\<close>

definition finfo_max :: real where
  "finfo_max = (2 ^ 53 - 1) * 2 ^ 971"

text \<open>
  A numpy array of floating point values: its shape and its elements in storage order
  (the last axis runs fastest).
\<close>

record ndarray =
  shape :: "nat list"
  flat :: "fl list"

section \<open>Division that tolerates zeros\<close>

text \<open>
  \<^verbatim>\<open>numerator / denominator\<close> for two arrays of one shape, element by element. (Arrays
  of different shapes are broadcast by numpy or rejected; the model does not cover them.)
\<close>

definition true_divide :: "ndarray \<Rightarrow> ndarray \<Rightarrow> ndarray" where
  "true_divide numerator denominator =
     \<lparr>shape = shape numerator,
      flat = map (\<lambda>(x, y). fl_div x y) (zip (flat numerator) (flat denominator))\<rparr>"

text \<open>\<^verbatim>\<open>numpy.nan_to_num\<close>: not-a-number becomes zero, an infinity the largest finite
  value of its sign.\<close>

fun nan_to_num1 :: "fl \<Rightarrow> fl" where
  "nan_to_num1 NaN = Fin 0"
| "nan_to_num1 PInf = Fin finfo_max"
| "nan_to_num1 NInf = Fin (- finfo_max)"
| "nan_to_num1 x = x"

definition nan_to_num :: "ndarray \<Rightarrow> ndarray" where
  "nan_to_num a = a\<lparr>flat := map nan_to_num1 (flat a)\<rparr>"

text \<open>
  \<^verbatim>\<open>safe_divide\<close> of \<^verbatim>\<open>ndarray.py\<close>. Inside \<^verbatim>\<open>numpy.errstate(divide="ignore")\<close> the
  division gives its special values without a warning.
  \<^verbatim>\<open>
  result = numerator / denominator
  result[result == numpy.inf] = 0.0
  return numpy.nan_to_num(result)
  \<close>
\<close>

definition safe_divide :: "ndarray \<Rightarrow> ndarray \<Rightarrow> ndarray" where
  "safe_divide numerator denominator =
     (let result = true_divide numerator denominator;
          result = result\<lparr>flat := map (\<lambda>x. if x = PInf then Fin 0 else x) (flat result)\<rparr>
      in nan_to_num result)"

section \<open>Coherent images of a point spread function and a stack\<close>

text \<open>What \<^verbatim>\<open>get_coherent_images\<close> reads from the point spread function and from the
  stack: the images, the rotation angle, which may be missing, and the voxel sizes, which
  are Python numbers.\<close>

record image_stack =
  images :: ndarray
  rotation_angle :: "real option"
  voxel_sizes :: "real list"

text \<open>\<^verbatim>\<open>x.get_rotation_angle() or 0\<close>\<close>

definition angle_or_0 :: "image_stack \<Rightarrow> real" where
  "angle_or_0 x = (case rotation_angle x of None \<Rightarrow> 0 | Some a \<Rightarrow> a)"

text \<open>
  The pairs of elements that numpy compares in two sequences: element by element for
  two sequences of one length; a sequence of length 1 is stretched to the length of the
  other; any other two lengths cannot be broadcast together.
\<close>

definition broadcast_pairs :: "real list \<Rightarrow> real list \<Rightarrow> error + (real \<times> real) list" where
  "broadcast_pairs xs ys =
     (if length xs = length ys then Inr (zip xs ys)
      else if length xs = 1 then Inr (map (\<lambda>y. (hd xs, y)) ys)
      else if length ys = 1 then Inr (map (\<lambda>x. (x, hd ys)) xs)
      else Inl (ValueError ''operands could not be broadcast together''))"

text \<open>\<^verbatim>\<open>numpy.allclose(a, b, rtol=0.01)\<close>, with the default absolute tolerance.\<close>

definition allclose :: "real list \<Rightarrow> real list \<Rightarrow> error + bool" where
  "allclose xs ys =
     (case broadcast_pairs xs ys of
        Inl e \<Rightarrow> Inl e
      | Inr pairs \<Rightarrow>
          Inr (list_all (\<lambda>(a, b). \<bar>a - b\<bar> \<le> 1 / 10 ^ 8 + (1 / 100) * \<bar>b\<bar>) pairs))"

text \<open>
  \<^verbatim>\<open>get_coherent_images(psf, stack, dtype)\<close> of \<^verbatim>\<open>utils.py\<close>, as the module is written.
  The module imports \<^verbatim>\<open>numpy\<close>, \<^verbatim>\<open>image_data\<close> and \<^verbatim>\<open>image_filters\<close> and nothing else.
  So \<^verbatim>\<open>numpy.ndimage\<close>, which numpy does not have, ends the rotation and the zoom in
  \<^verbatim>\<open>AttributeError\<close>; and the name \<^verbatim>\<open>FFTTasks\<close>, which is not bound, ends every other call
  in \<^verbatim>\<open>NameError\<close>, before \<^verbatim>\<open>expand_to_shape\<close> and \<^verbatim>\<open>fftpack\<close>, which are not bound
  either, are reached. No path of the function returns.
  \<^verbatim>\<open>
  psf_angle = psf.get_rotation_angle() or 0
  stack_angle = stack.get_rotation_angle() or 0
  psf_voxels = psf.get_voxel_sizes()
  stack_voxels = stack.get_voxel_sizes()
  psf_images = psf.images
  stack_images = stack.images
  if psf_angle != stack_angle:
      rotation = psf_angle - stack_angle
      psf_images = numpy.ndimage.rotate(psf_images, rotation, axes=(-1, -2))
  if not numpy.allclose(psf_voxels, stack_voxels, rtol=0.01):
      zoom_factors = tuple([a / b for a, b in zip(psf_voxels, stack_voxels)])
      psf_images = numpy.ndimage.zoom(psf_images, zoom_factors)
  max_shape = [max(a, b) for a, b in zip(psf_images.shape, stack_images.shape)]
  optimal_shape = tuple(map(FFTTasks.get_optimal_fft_size, max_shape))
  psf_images = expand_to_shape(psf_images, optimal_shape, dtype)
  stack_images = expand_to_shape(stack_images, optimal_shape, dtype)
  psf_images = fftpack.fftshift(psf_images)
  psf_images /= psf_images.sum()
  return psf_images, stack_images
  \<close>
\<close>

definition get_coherent_images ::
  "image_stack \<Rightarrow> image_stack \<Rightarrow> error + (ndarray \<times> ndarray)" where
  "get_coherent_images psf stack =
     (let psf_angle = angle_or_0 psf;
          stack_angle = angle_or_0 stack;
          psf_voxels = voxel_sizes psf;
          stack_voxels = voxel_sizes stack
      in if psf_angle \<noteq> stack_angle then Inl (AttributeError ''ndimage'')
         else
           (case allclose psf_voxels stack_voxels of
              Inl e \<Rightarrow> Inl e
            | Inr close \<Rightarrow>
                if \<not> close
                then (if list_ex (\<lambda>(a, b). b = 0) (zip psf_voxels stack_voxels)
                      then Inl ZeroDivisionError
                      else Inl (AttributeError ''ndimage''))
                else Inl (NameError ''FFTTasks'')))"

section \<open>Concrete inputs\<close>

text \<open>A quarter turn about the z axis and a stretch along the x axis, both about the
  origin and without translation; and the same quarter turn about another center.\<close>

definition quarter_turn :: affine where
  "quarter_turn =
     \<lparr>matrix = ((0, -1, 0), (1, 0, 0), (0, 0, 1)), center = zero3, translation = zero3\<rparr>"

definition stretch :: affine where
  "stretch =
     \<lparr>matrix = ((2, 0, 0), (0, 1, 0), (0, 0, 1)), center = zero3, translation = zero3\<rparr>"

definition quarter_turn_off_center :: affine where
  "quarter_turn_off_center =
     \<lparr>matrix = ((0, -1, 0), (1, 0, 0), (0, 0, 1)), center = (1, 0, 0), translation = zero3\<rparr>"

text \<open>An archive with a reference view and one more view of the same channel and scale,
  turned by half a radian, and no transform; options naming the correlation metric; and a
  toolkit whose user wants to skip, whose resampling returns the image as it is and whose
  registration returns the stretch.\<close>

definition small_image :: image where
  "small_image =
     \<lparr>GetSize = (3, 1, 1), GetSpacing = (2, 1, 1), GetOrigin = (10, 0, 0),
      GetDirection = identity3, GetPixels = [40, 50, 60]\<rparr>"

definition two_views :: "(int, real) archive" where
  "two_views =
     \<lparr>views = [(Original, 100, 0, 0) \<mapsto> \<lparr>view_image = small_image, view_angle = 0\<rparr>,
               (Original, 100, 1, 0) \<mapsto> \<lparr>view_image = small_image, view_angle = 1 / 2\<rparr>],
      transforms = Map.empty,
      active = None\<rparr>"

definition correlation_options :: options where
  "correlation_options =
     \<lparr>registration_method = ''correlation'', mattes_histogram_bins = 30,
      sampling_percentage = 1, learning_rate = 1 / 2, min_step_length = 1 / 1000,
      registration_max_iterations = 100, relaxation_factor = 1 / 2,
      channel = 0, scale = 100, rot_axis = 0,
      x_offset = 1, y_offset = 2, z_offset = 3\<rparr>"

definition plain_toolkit :: toolkit where
  "plain_toolkit =
     \<lparr>get_user_input = (\<lambda>question. True),
      resample_image = (\<lambda>img T. img),
      register_images = (\<lambda>method fixed_image moving_image. Inr stretch)\<rparr>"

text \<open>The registration object the constructor builds from them, the same object after
  its options were given a metric name that is not supported, and options with that
  name from the start.\<close>

definition fresh_registration :: registration_state where
  "fresh_registration = new_registration two_views correlation_options Correlation"

definition renamed_registration :: registration_state where
  "renamed_registration =
     fresh_registration\<lparr>options := correlation_options\<lparr>registration_method := ''foo''\<rparr>\<rparr>"

definition foo_options :: options where
  "foo_options = correlation_options\<lparr>registration_method := ''foo''\<rparr>"

text \<open>The object after \<^verbatim>\<open>execute\<close> has run on it with that toolkit.\<close>

definition finished_registration :: registration_state where
  "finished_registration =
     fresh_registration
       \<lparr>data := two_views\<lparr>active := Some (Original, 100, 1, 0)\<rparr>,
        final_transform :=
          Some (combine_transforms
                  (euler_affine (coarse_align correlation_options small_image (1 / 2)))
                  stretch)\<rparr>"

text \<open>A directory with one image and the transform file that goes with it, the archive
  that the first loop of the import script has filled from a reference view and that
  image, and readers that give a fixed transform and a fixed image.\<close>

definition file_names :: "string list" where
  "file_names =
     [''original_scale_100_index_1_channel_0_angle_30.tif'',
      ''transform_scale_100_index_1_channel_0_angle_30.txt'']"

definition imported_views :: "(string, string) archive" where
  "imported_views =
     \<lparr>views = [(Original, ''100'', ''0'', ''0'') \<mapsto> \<lparr>view_image = small_image, view_angle = ''0''\<rparr>,
               (Original, ''100'', ''1'', ''0'') \<mapsto> \<lparr>view_image = small_image, view_angle = ''30''\<rparr>],
      transforms = Map.empty,
      active = None\<rparr>"

definition sample_entry :: transform_entry where
  "sample_entry =
     \<lparr>transform_type = ''AffineTransform'', params = [1, 0, 0, 0, 1, 0, 0, 0, 1, 0, 0, 0],
      fixed_params = [0, 0, 0]\<rparr>"

definition plain_readers :: import_env where
  "plain_readers =
     \<lparr>read_itk_transform = (\<lambda>path. Some sample_entry),
      resample_registered = (\<lambda>path moving reference. Some moving)\<rparr>"

definition params_c_value :: "string list" where
  "params_c_value = [''scale'', ''index'', ''channel'', ''angle'']"

text \<open>The archive after the second loop of the import script has run over that
  directory.\<close>

definition imported_result :: "(string, string) archive" where
  "imported_result =
     \<lparr>views = [(Original, ''100'', ''0'', ''0'') \<mapsto> \<lparr>view_image = small_image, view_angle = ''0''\<rparr>,
               (Original, ''100'', ''1'', ''0'') \<mapsto> \<lparr>view_image = small_image, view_angle = ''30''\<rparr>,
               (Registered, ''100'', ''1'', ''0'') \<mapsto> \<lparr>view_image = small_image, view_angle = ''30''\<rparr>],
      transforms = [(''100'', ''1'', ''0'') \<mapsto> sample_entry],
      active = Some (Original, ''100'', ''1'', ''0'')\<rparr>"

text \<open>Two arrays of two rows and two columns to divide: a positive number, a zero and a
  negative number over a zero, and six over three.\<close>

definition some_numerators :: ndarray where
  "some_numerators = \<lparr>shape = [2, 2], flat = [Fin 1, Fin 0, Fin (- 1), Fin 6]\<rparr>"

definition some_denominators :: ndarray where
  "some_denominators = \<lparr>shape = [2, 2], flat = [Fin 0, Fin 0, Fin 0, Fin 3]\<rparr>"

text \<open>A point spread function of two rows and two columns with most of its energy at
  the index \<open>(1, 1)\<close>, the same one turned by a quarter of a turn, and a stack of the same
  shape and voxel sizes and with no angle.\<close>

definition centered_psf :: image_stack where
  "centered_psf =
     \<lparr>images = \<lparr>shape = [2, 2], flat = [Fin 1, Fin 1, Fin 1, Fin 5]\<rparr>,
      rotation_angle = None, voxel_sizes = [1, 1]\<rparr>"

definition turned_psf :: image_stack where
  "turned_psf =
     \<lparr>images = \<lparr>shape = [2, 2], flat = [Fin 1, Fin 1, Fin 1, Fin 5]\<rparr>,
      rotation_angle = Some 90, voxel_sizes = [1, 1]\<rparr>"

definition small_stack :: image_stack where
  "small_stack =
     \<lparr>images = \<lparr>shape = [2, 2], flat = [Fin 3, Fin 4, Fin 5, Fin 6]\<rparr>,
      rotation_angle = None, voxel_sizes = [1, 1]\<rparr>"

section \<open>The algebra of the combination\<close>

lemma combine_transforms_fields:
  "matrix (combine_transforms m e) = dot_mm (matrix m) (matrix e)"
  "center (combine_transforms m e) = center e"
  "translation (combine_transforms m e) =
     vsub (vadd (vadd (dot_mv (matrix m) (vsub (vadd (translation e) (center e)) (center m)))
       (translation m)) (center m)) (center e)"
  by (simp_all add: combine_transforms_def AffineTransform_def Let_def)

lemma dot_mv_dot_mm: "dot_mv (dot_mm A B) v = dot_mv A (dot_mv B v)"
proof -
  obtain a0 a1 a2 where A: "A = (a0, a1, a2)" by (cases A)
  obtain b0 b1 b2 where B: "B = (b0, b1, b2)" by (cases B)
  obtain p q r where a0: "a0 = (p, q, r)" by (cases a0)
  obtain p' q' r' where a1: "a1 = (p', q', r')" by (cases a1)
  obtain p'' q'' r'' where a2: "a2 = (p'', q'', r'')" by (cases a2)
  obtain s t u where b0: "b0 = (s, t, u)" by (cases b0)
  obtain s' t' u' where b1: "b1 = (s', t', u')" by (cases b1)
  obtain s'' t'' u'' where b2: "b2 = (s'', t'', u'')" by (cases b2)
  obtain x y z where v: "v = (x, y, z)" by (cases v)
  show ?thesis
    unfolding A B a0 a1 a2 b0 b1 b2 v by (simp add: algebra_simps)
qed

lemma dot_mv_identity3: "dot_mv identity3 v = v"
  by (cases v) (simp add: identity3_def)

lemma dot_mm_identity3: "dot_mm identity3 B = B"
proof -
  obtain b0 b1 b2 where B: "B = (b0, b1, b2)" by (cases B)
  obtain s t u where b0: "b0 = (s, t, u)" by (cases b0)
  obtain s' t' u' where b1: "b1 = (s', t', u')" by (cases b1)
  obtain s'' t'' u'' where b2: "b2 = (s'', t'', u'')" by (cases b2)
  show ?thesis
    unfolding B b0 b1 b2 by (simp add: identity3_def)
qed

text \<open>
  C1, as the claim states it, fails. With the quarter turn as the manual transform and
  the stretch as the estimated transform, the combined transform sends the point
  \<open>(1, 0, 0)\<close> to \<open>(0, 2, 0)\<close>, while the manual transform followed by the estimated
  transform sends it to \<open>(0, 1, 0)\<close>.
\<close>

theorem C1_counterexample:
  "TransformPoint (combine_transforms quarter_turn stretch) (1, 0, 0)
     \<noteq> TransformPoint stretch (TransformPoint quarter_turn (1, 0, 0))"
  by (simp add: TransformPoint_def combine_transforms_def AffineTransform_def Let_def
      quarter_turn_def stretch_def zero3_def)

text \<open>
  C1, amended: for every manual transform and every estimated transform, the combined
  transform built by \<^verbatim>\<open>execute\<close> (matrix \<open>A0 A1\<close>, center \<open>c1\<close>, translation
  \<open>A0 (t1 + c1 - c0) + t0 + c0 - c1\<close>) is, as a point map about the single center \<open>c1\<close>,
  exactly the estimated transform followed by the manual transform: it sends every point
  \<open>x\<close> to the image under the manual transform of the image of \<open>x\<close> under the estimated
  transform. That is the order in which a resampler, which maps points of the output grid
  back into the moving image, undoes "manual transform first, estimated transform second"
  on images.
\<close>

theorem C1_combined_point_map:
  "TransformPoint (combine_transforms manual_transform result) x
     = TransformPoint manual_transform (TransformPoint result x)"
proof -
  obtain x0 x1 x2 where x: "x = (x0, x1, x2)" by (cases x)
  obtain c10 c11 c12 where c1: "center result = (c10, c11, c12)" by (cases "center result")
  obtain t10 t11 t12 where t1: "translation result = (t10, t11, t12)"
    by (cases "translation result")
  obtain c00 c01 c02 where c0: "center manual_transform = (c00, c01, c02)"
    by (cases "center manual_transform")
  obtain t00 t01 t02 where t0: "translation manual_transform = (t00, t01, t02)"
    by (cases "translation manual_transform")
  obtain y0 y1 y2 where y: "dot_mv (matrix result) (vsub x (center result)) = (y0, y1, y2)"
    by (cases "dot_mv (matrix result) (vsub x (center result))")
  obtain a0 a1 a2 where A: "matrix manual_transform = (a0, a1, a2)"
    by (cases "matrix manual_transform")
  obtain p q r where a0: "a0 = (p, q, r)" by (cases a0)
  obtain p' q' r' where a1: "a1 = (p', q', r')" by (cases a1)
  obtain p'' q'' r'' where a2: "a2 = (p'', q'', r'')" by (cases a2)
  show ?thesis
    unfolding TransformPoint_def combine_transforms_fields dot_mv_dot_mm y
    unfolding c1 t1 c0 t0 A a0 a1 a2
    by (simp add: algebra_simps)
qed

text \<open>
  C2: combining an identity manual transform (identity matrix, zero translation, any
  center \<open>c0\<close>) with an estimated transform gives the estimated transform back: the same
  matrix, the same center and the same translation.
\<close>

theorem C2_identity_manual_transform:
  "combine_transforms \<lparr>matrix = identity3, center = c0, translation = zero3\<rparr> result = result"
proof -
  obtain c10 c11 c12 where c1: "center result = (c10, c11, c12)" by (cases "center result")
  obtain t10 t11 t12 where t1: "translation result = (t10, t11, t12)"
    by (cases "translation result")
  obtain c00 c01 c02 where c0: "c0 = (c00, c01, c02)" by (cases c0)
  have "translation
          (combine_transforms \<lparr>matrix = identity3, center = c0, translation = zero3\<rparr> result)
        = translation result"
    unfolding combine_transforms_fields by (simp add: dot_mv_identity3 c1 t1 c0 zero3_def)
  then show ?thesis
    by (simp add: combine_transforms_def AffineTransform_def Let_def dot_mm_identity3)
qed

text \<open>
  C9: the combination is not commutative. There are two transforms, neither with the
  identity matrix, with different centers, whose combination in one order and in the
  other order are different point maps.
\<close>

theorem C9_combination_not_commutative:
  "\<exists>A B. matrix A \<noteq> identity3 \<and> matrix B \<noteq> identity3 \<and> center A \<noteq> center B \<and>
     (\<exists>x. TransformPoint (combine_transforms A B) x
            \<noteq> TransformPoint (combine_transforms B A) x)"
proof -
  have "TransformPoint (combine_transforms quarter_turn_off_center stretch) (1, 0, 0)
          \<noteq> TransformPoint (combine_transforms stretch quarter_turn_off_center) (1, 0, 0)"
    by (simp add: TransformPoint_def combine_transforms_def AffineTransform_def Let_def
        quarter_turn_off_center_def stretch_def zero3_def)
  moreover have "matrix quarter_turn_off_center \<noteq> identity3"
    by (simp add: quarter_turn_off_center_def identity3_def)
  moreover have "matrix stretch \<noteq> identity3"
    by (simp add: stretch_def identity3_def)
  moreover have "center quarter_turn_off_center \<noteq> center stretch"
    by (simp add: quarter_turn_off_center_def stretch_def zero3_def)
  ultimately show ?thesis by blast
qed

section \<open>The registration: construction, initialization and result\<close>

lemma set_active_image_Inr:
  "set_active_image ix ch sc ty d = Inr d' \<Longrightarrow> d' = d\<lparr>active := Some (ty, sc, ix, ch)\<rparr>"
  by (auto simp: set_active_image_def split: option.splits)

lemma initialization_found:
  assumes "views d (Original, scale (options self), moving_index self, channel (options self))
             = Some v"
  shows "initialization self d =
     Inr (d\<lparr>active := Some (Original, scale (options self), moving_index self,
                           channel (options self))\<rparr>,
          view_image v, coarse_align (options self) (view_image v) (view_angle v))"
  using assms
  by (simp add: initialization_def set_active_image_def get_itk_image_def get_rotation_angle_def
      active_view_def)

lemma initialization_Inr:
  "initialization self d1 = Inr (d2, moving_image, T) \<Longrightarrow>
   views d2 = views d1 \<and> transforms d2 = transforms d1"
  by (auto simp: initialization_def split: sum.splits dest!: set_active_image_Inr)

text \<open>What a run of \<^verbatim>\<open>execute\<close> that returns has done.\<close>

lemma execute_Inr:
  assumes "execute tk self = Inr self'"
  shows "\<exists>d1 fixed_image.
     set_active_image (fixed_index self) (channel (options self)) (scale (options self))
       Original (data self) = Inr d1 \<and>
     get_itk_image d1 = Inr fixed_image \<and>
     (if skip_requested tk self d1 then self' = self\<lparr>data := d1\<rparr>
      else (\<exists>d2 moving_image T result.
          initialization self d1 = Inr (d2, moving_image, T) \<and>
          register_images tk (registration self) fixed_image
            (resample_image tk moving_image T) = Inr result \<and>
          self' = self\<lparr>data := d2,
                       final_transform := Some (combine_transforms (euler_affine T) result)\<rparr>))"
  using assms
  by (auto simp: execute_def Let_def split: sum.splits if_splits prod.splits)

lemma plain_run: "execute plain_toolkit fresh_registration = Inr finished_registration"
  by (simp add: fresh_registration_def finished_registration_def new_registration_def
      execute_def set_active_image_def two_views_def get_itk_image_def active_view_def
      skip_requested_def check_if_exists_def initialization_def get_rotation_angle_def
      plain_toolkit_def Let_def correlation_options_def)

text \<open>
  C3, as the claim states it, fails. On an archive with two views and no transform a
  registration runs to its end and holds the combined transform, and the archive it
  leaves has no transform under the key of the moving view (scale 100, index 1,
  channel 0).
\<close>

theorem C3_counterexample:
  "execute plain_toolkit fresh_registration = Inr finished_registration \<and>
   final_transform finished_registration
     = Some (combine_transforms
               (euler_affine (coarse_align correlation_options small_image (1 / 2))) stretch) \<and>
   transforms (data finished_registration) (100, 1, 0) = None"
  by (simp add: plain_run) (simp add: finished_registration_def fresh_registration_def
      new_registration_def two_views_def)

text \<open>
  C3, amended: when \<^verbatim>\<open>execute\<close> returns, the views and the transforms of the archive are
  the ones it had before, so the method writes nothing to the archive; only the active
  image of the archive is another one. When the run was not skipped, the combined
  transform of the manual transform and the optimizer's result is in the field
  \<^verbatim>\<open>final_transform\<close> of the object, from where the caller can store it; when the run was
  skipped, the field is as it was.
\<close>

theorem C3_archive_untouched:
  assumes "execute tk self = Inr self'"
  shows "transforms (data self') = transforms (data self) \<and>
         views (data self') = views (data self) \<and>
         (\<exists>d1 fixed_image.
            set_active_image (fixed_index self) (channel (options self)) (scale (options self))
              Original (data self) = Inr d1 \<and>
            get_itk_image d1 = Inr fixed_image \<and>
            (if skip_requested tk self d1 then final_transform self' = final_transform self
             else (\<exists>d2 moving_image T result.
                initialization self d1 = Inr (d2, moving_image, T) \<and>
                register_images tk (registration self) fixed_image
                  (resample_image tk moving_image T) = Inr result \<and>
                final_transform self' = Some (combine_transforms (euler_affine T) result))))"
proof -
  from execute_Inr [OF assms] obtain d1 fixed_image where
    d1: "set_active_image (fixed_index self) (channel (options self)) (scale (options self))
       Original (data self) = Inr d1"
    and f: "get_itk_image d1 = Inr fixed_image"
    and rest: "if skip_requested tk self d1 then self' = self\<lparr>data := d1\<rparr>
      else (\<exists>d2 moving_image T result.
          initialization self d1 = Inr (d2, moving_image, T) \<and>
          register_images tk (registration self) fixed_image
            (resample_image tk moving_image T) = Inr result \<and>
          self' = self\<lparr>data := d2,
                       final_transform := Some (combine_transforms (euler_affine T) result)\<rparr>)"
    by blast
  have d1': "views d1 = views (data self)" "transforms d1 = transforms (data self)"
    using set_active_image_Inr [OF d1] by simp_all
  show ?thesis
  proof (cases "skip_requested tk self d1")
    case True
    with rest have "self' = self\<lparr>data := d1\<rparr>" by simp
    with d1' have "transforms (data self') = transforms (data self)"
      "views (data self') = views (data self)" "final_transform self' = final_transform self"
      by simp_all
    with d1 f True show ?thesis by auto
  next
    case False
    with rest obtain d2 moving_image T result where
      i: "initialization self d1 = Inr (d2, moving_image, T)"
      and r: "register_images tk (registration self) fixed_image
            (resample_image tk moving_image T) = Inr result"
      and s: "self' = self\<lparr>data := d2,
                       final_transform := Some (combine_transforms (euler_affine T) result)\<rparr>"
      by auto
    from initialization_Inr [OF i] d1' s have
      "transforms (data self') = transforms (data self)"
      "views (data self') = views (data self)"
      "final_transform self' = Some (combine_transforms (euler_affine T) result)"
      by simp_all
    with d1 f False i r show ?thesis by auto
  qed
qed

theorem C3_witness:
  "transforms (data finished_registration) = transforms (data fresh_registration) \<and>
   views (data finished_registration) = views (data fresh_registration) \<and>
   transforms (data finished_registration) = Map.empty"
  using C3_archive_untouched [OF plain_run]
  by (simp add: fresh_registration_def new_registration_def two_views_def)

text \<open>
  C5, as the claim states it, fails in its last part. The user's offsets are
  \<^verbatim>\<open>x_offset\<close> = 1, \<^verbatim>\<open>y_offset\<close> = 2 and \<^verbatim>\<open>z_offset\<close> = 3, and the translation of the manual
  transform is \<open>(2, 1, 3)\<close>: the first two offsets change places.
\<close>

theorem C5_counterexample:
  "initialization fresh_registration two_views
     = Inr (two_views\<lparr>active := Some (Original, 100, 1, 0)\<rparr>, small_image,
            coarse_align correlation_options small_image (1 / 2)) \<and>
   (x_offset correlation_options, y_offset correlation_options, z_offset correlation_options)
     = (1, 2, 3) \<and>
   euler_translation (coarse_align correlation_options small_image (1 / 2)) = (2, 1, 3)"
  by (simp add: initialization_def set_active_image_def get_itk_image_def
      get_rotation_angle_def active_view_def fresh_registration_def new_registration_def
      two_views_def correlation_options_def coarse_align_def Let_def SetTranslation_def)

text \<open>
  C5, amended: in the initialization of \<^verbatim>\<open>execute\<close>, for a moving view that is in the
  archive and a rotation axis of 0, 1 or 2, the manual transform has as its center the
  physical point of the middle of the moving image in index space: the index
  \<open>(size - 1) / 2\<close> on every axis, scaled by the voxel size of the axis, turned by the
  direction matrix of the image and moved by its origin. Its rotation is the stored angle
  of the moving view about the axis that \<^verbatim>\<open>rot_axis\<close> selects and zero about the two
  others. Its translation is made of the three offsets of the user in the order
  \<^verbatim>\<open>y_offset\<close>, \<^verbatim>\<open>x_offset\<close>, \<^verbatim>\<open>z_offset\<close>.
\<close>

theorem C5_manual_transform:
  assumes "views d (Original, scale (options self), moving_index self, channel (options self))
             = Some v"
    and "0 \<le> rot_axis (options self)" and "rot_axis (options self) \<le> 2"
    and "GetSize (view_image v) = (nx, ny, nz)"
    and "GetSpacing (view_image v) = (sx, sy, sz)"
    and "GetOrigin (view_image v) = (ox, oy, oz)"
    and "GetDirection (view_image v) = ((d00, d01, d02), (d10, d11, d12), (d20, d21, d22))"
  shows "\<exists>d2 T. initialization self d = Inr (d2, view_image v, T) \<and>
     euler_center T =
       (d00 * (sx * ((real nx - 1) / 2)) + d01 * (sy * ((real ny - 1) / 2))
          + d02 * (sz * ((real nz - 1) / 2)) + ox,
        d10 * (sx * ((real nx - 1) / 2)) + d11 * (sy * ((real ny - 1) / 2))
          + d12 * (sz * ((real nz - 1) / 2)) + oy,
        d20 * (sx * ((real nx - 1) / 2)) + d21 * (sy * ((real ny - 1) / 2))
          + d22 * (sz * ((real nz - 1) / 2)) + oz) \<and>
     vec3_list (euler_rotation T) = [0, 0, 0][nat (rot_axis (options self)) := view_angle v] \<and>
     euler_translation T =
       (y_offset (options self), x_offset (options self), z_offset (options self))"
proof -
  from assms(2,3) consider "rot_axis (options self) = 0" | "rot_axis (options self) = 1"
    | "rot_axis (options self) = 2" by linarith
  then have "vec3_list (euler_rotation (coarse_align (options self) (view_image v) (view_angle v)))
     = [0, 0, 0][nat (rot_axis (options self)) := view_angle v]"
    by cases (simp_all add: coarse_align_def Let_def SetRotation_def SetTranslation_def
        SetCenter_def)
  moreover
  have "euler_center (coarse_align (options self) (view_image v) (view_angle v)) =
       (d00 * (sx * ((real nx - 1) / 2)) + d01 * (sy * ((real ny - 1) / 2))
          + d02 * (sz * ((real nz - 1) / 2)) + ox,
        d10 * (sx * ((real nx - 1) / 2)) + d11 * (sy * ((real ny - 1) / 2))
          + d12 * (sz * ((real nz - 1) / 2)) + oy,
        d20 * (sx * ((real nx - 1) / 2)) + d21 * (sy * ((real ny - 1) / 2))
          + d22 * (sz * ((real nz - 1) / 2)) + oz)"
    by (simp add: coarse_align_def Let_def SetRotation_def SetTranslation_def SetCenter_def
        TransformContinuousIndexToPhysicalPoint_def assms(4-7))
  moreover
  have "euler_translation (coarse_align (options self) (view_image v) (view_angle v)) =
       (y_offset (options self), x_offset (options self), z_offset (options self))"
    by (simp add: coarse_align_def Let_def SetTranslation_def)
  ultimately show ?thesis
    unfolding initialization_found [OF assms(1)] by blast
qed

theorem C5_witness:
  "\<exists>d2 T. initialization fresh_registration two_views = Inr (d2, small_image, T) \<and>
     euler_center T = (12, 0, 0) \<and>
     vec3_list (euler_rotation T) = [1 / 2, 0, 0] \<and>
     euler_translation T = (2, 1, 3)"
  using C5_manual_transform [of two_views fresh_registration
      "\<lparr>view_image = small_image, view_angle = 1 / 2\<rparr>" 3 1 1 2 1 1 10 0 0 1 0 0 0 1 0 0 0 1]
  by (simp add: fresh_registration_def new_registration_def two_views_def
      correlation_options_def small_image_def identity3_def)

text \<open>
  C6, as the claim states it, fails. With the metric name \<^verbatim>\<open>foo\<close> the constructor
  raises \<^verbatim>\<open>ValueError\<close>, so there is no object to call \<^verbatim>\<open>execute\<close> on; and \<^verbatim>\<open>execute\<close> on
  an object whose options were given that name after the construction does not look at
  the name and returns.
\<close>

theorem C6_counterexample:
  "MultiViewRegistration two_views foo_options = Inl (ValueError ''Unknown metric: foo'') \<and>
   registration_method (options renamed_registration) = ''foo'' \<and>
   execute plain_toolkit renamed_registration
     = Inr (renamed_registration
          \<lparr>data := two_views\<lparr>active := Some (Original, 100, 1, 0)\<rparr>,
           final_transform :=
             Some (combine_transforms
                     (euler_affine (coarse_align (options renamed_registration) small_image
                        (1 / 2)))
                     stretch)\<rparr>)"
  by (simp add: MultiViewRegistration_def foo_options_def correlation_options_def
      renamed_registration_def fresh_registration_def new_registration_def execute_def
      set_active_image_def two_views_def get_itk_image_def active_view_def skip_requested_def
      check_if_exists_def initialization_def get_rotation_angle_def plain_toolkit_def Let_def)

text \<open>
  C6, amended: the metric is chosen when the object is constructed, not in \<^verbatim>\<open>execute\<close>.
  For the names \<^verbatim>\<open>mattes\<close>, \<^verbatim>\<open>correlation\<close> and \<^verbatim>\<open>mean-squared-difference\<close> the constructor
  returns an object with the mutual information (with the configured number of histogram
  bins), the correlation and the mean squares as its metric; for every other name it
  raises \<^verbatim>\<open>ValueError\<close> with the message \<^verbatim>\<open>Unknown metric:\<close> and the name.
\<close>

theorem C6_metric_by_name:
  "(registration_method opts = ''mattes'' \<longrightarrow>
      (\<exists>r. MultiViewRegistration d opts = Inr r \<and>
           metric (registration r) = MattesMutualInformation (mattes_histogram_bins opts))) \<and>
   (registration_method opts = ''correlation'' \<longrightarrow>
      (\<exists>r. MultiViewRegistration d opts = Inr r \<and> metric (registration r) = Correlation)) \<and>
   (registration_method opts = ''mean-squared-difference'' \<longrightarrow>
      (\<exists>r. MultiViewRegistration d opts = Inr r \<and> metric (registration r) = MeanSquares)) \<and>
   (registration_method opts \<noteq> ''mattes'' \<and> registration_method opts \<noteq> ''correlation'' \<and>
    registration_method opts \<noteq> ''mean-squared-difference'' \<longrightarrow>
      MultiViewRegistration d opts
        = Inl (ValueError (''Unknown metric: '' @ registration_method opts)))"
  by (simp add: MultiViewRegistration_def new_registration_def)

theorem C6_witness:
  "(\<exists>r. MultiViewRegistration two_views correlation_options = Inr r \<and>
        metric (registration r) = Correlation) \<and>
   MultiViewRegistration two_views foo_options = Inl (ValueError ''Unknown metric: foo'')"
  using C6_metric_by_name [of correlation_options two_views]
    C6_metric_by_name [of foo_options two_views]
  by (simp add: correlation_options_def foo_options_def)

text \<open>\<^verbatim>\<open>execute\<close> does not look at the name of the metric: with another name in the
  options it does the same, and leaves that name in the options of the object.\<close>

lemma coarse_align_ignores_name:
  "coarse_align (opts\<lparr>registration_method := m\<rparr>) img a = coarse_align opts img a"
  by (simp add: coarse_align_def Let_def)

lemma execute_ignores_name:
  "execute tk (self\<lparr>options := (options self)\<lparr>registration_method := m\<rparr>\<rparr>)
     = map_sum id (\<lambda>r. r\<lparr>options := (options self)\<lparr>registration_method := m\<rparr>\<rparr>)
         (execute tk self)"
  by (simp add: execute_def skip_requested_def initialization_def Let_def
      coarse_align_ignores_name split: sum.splits prod.splits)

text \<open>
  C7, as the claim states it, fails. On the object that the constructor has just built,
  before any call of \<^verbatim>\<open>execute\<close>, \<^verbatim>\<open>get_final_transform\<close> returns \<^verbatim>\<open>None\<close>; it does not
  fail.
\<close>

theorem C7_counterexample:
  "MultiViewRegistration two_views correlation_options = Inr fresh_registration \<and>
   get_final_transform fresh_registration = None"
  by (simp add: MultiViewRegistration_def correlation_options_def fresh_registration_def
      new_registration_def get_final_transform_def)

text \<open>
  C7, amended: \<^verbatim>\<open>get_final_transform\<close> never fails. On a newly constructed object it
  returns \<^verbatim>\<open>None\<close>. After a call of \<^verbatim>\<open>execute\<close> that returned it gives the combined
  transform of the manual transform and the optimizer's result when the run was not
  skipped, and what it gave before the call when the run was skipped.
\<close>

theorem C7_final_transform:
  "(MultiViewRegistration d opts = Inr r \<longrightarrow> get_final_transform r = None) \<and>
   (execute tk self = Inr self' \<longrightarrow>
      (\<exists>d1 fixed_image.
         set_active_image (fixed_index self) (channel (options self)) (scale (options self))
           Original (data self) = Inr d1 \<and>
         get_itk_image d1 = Inr fixed_image \<and>
         (if skip_requested tk self d1
          then get_final_transform self' = get_final_transform self
          else (\<exists>d2 moving_image T result.
             initialization self d1 = Inr (d2, moving_image, T) \<and>
             register_images tk (registration self) fixed_image
               (resample_image tk moving_image T) = Inr result \<and>
             get_final_transform self'
               = Some (combine_transforms (euler_affine T) result)))))"
proof (intro conjI impI)
  assume "MultiViewRegistration d opts = Inr r"
  then show "get_final_transform r = None"
    by (auto simp: MultiViewRegistration_def new_registration_def get_final_transform_def
        split: if_splits)
next
  assume "execute tk self = Inr self'"
  from execute_Inr [OF this] obtain d1 fixed_image where
    d1: "set_active_image (fixed_index self) (channel (options self)) (scale (options self))
       Original (data self) = Inr d1"
    and f: "get_itk_image d1 = Inr fixed_image"
    and rest: "if skip_requested tk self d1 then self' = self\<lparr>data := d1\<rparr>
      else (\<exists>d2 moving_image T result.
          initialization self d1 = Inr (d2, moving_image, T) \<and>
          register_images tk (registration self) fixed_image
            (resample_image tk moving_image T) = Inr result \<and>
          self' = self\<lparr>data := d2,
                       final_transform := Some (combine_transforms (euler_affine T) result)\<rparr>)"
    by blast
  have "if skip_requested tk self d1
          then get_final_transform self' = get_final_transform self
          else (\<exists>d2 moving_image T result.
             initialization self d1 = Inr (d2, moving_image, T) \<and>
             register_images tk (registration self) fixed_image
               (resample_image tk moving_image T) = Inr result \<and>
             get_final_transform self'
               = Some (combine_transforms (euler_affine T) result))"
  proof (cases "skip_requested tk self d1")
    case True
    with rest show ?thesis by (simp add: get_final_transform_def)
  next
    case False
    with rest obtain d2 moving_image T result where
      "initialization self d1 = Inr (d2, moving_image, T)"
      "register_images tk (registration self) fixed_image
            (resample_image tk moving_image T) = Inr result"
      "self' = self\<lparr>data := d2,
                       final_transform := Some (combine_transforms (euler_affine T) result)\<rparr>"
      by auto
    with False show ?thesis by (auto simp: get_final_transform_def)
  qed
  with d1 f show "\<exists>d1 fixed_image.
         set_active_image (fixed_index self) (channel (options self)) (scale (options self))
           Original (data self) = Inr d1 \<and>
         get_itk_image d1 = Inr fixed_image \<and>
         (if skip_requested tk self d1
          then get_final_transform self' = get_final_transform self
          else (\<exists>d2 moving_image T result.
             initialization self d1 = Inr (d2, moving_image, T) \<and>
             register_images tk (registration self) fixed_image
               (resample_image tk moving_image T) = Inr result \<and>
             get_final_transform self'
               = Some (combine_transforms (euler_affine T) result)))"
    by blast
qed

theorem C7_witness:
  "get_final_transform fresh_registration = None \<and>
   (\<exists>d1 fixed_image.
      set_active_image 0 0 100 Original two_views = Inr d1 \<and>
      get_itk_image d1 = Inr fixed_image \<and>
      \<not> skip_requested plain_toolkit fresh_registration d1 \<and>
      (\<exists>d2 moving_image T result.
         initialization fresh_registration d1 = Inr (d2, moving_image, T) \<and>
         register_images plain_toolkit (registration fresh_registration) fixed_image
           (resample_image plain_toolkit moving_image T) = Inr result \<and>
         get_final_transform finished_registration
           = Some (combine_transforms (euler_affine T) result)))"
proof -
  have built: "MultiViewRegistration two_views correlation_options = Inr fresh_registration"
    by (simp add: MultiViewRegistration_def correlation_options_def fresh_registration_def
        new_registration_def)
  have no_skip: "\<not> skip_requested plain_toolkit fresh_registration d1"
    if "set_active_image 0 0 100 Original two_views = Inr d1" for d1
    using that
    by (auto simp: skip_requested_def check_if_exists_def set_active_image_def two_views_def
        fresh_registration_def new_registration_def correlation_options_def
        split: option.splits)
  from C7_final_transform [of two_views correlation_options fresh_registration
      plain_toolkit fresh_registration finished_registration] built plain_run
  have first: "get_final_transform fresh_registration = None"
    and "\<exists>d1 fixed_image.
         set_active_image (fixed_index fresh_registration)
           (channel (options fresh_registration)) (scale (options fresh_registration))
           Original (data fresh_registration) = Inr d1 \<and>
         get_itk_image d1 = Inr fixed_image \<and>
         (if skip_requested plain_toolkit fresh_registration d1
          then get_final_transform finished_registration
                 = get_final_transform fresh_registration
          else (\<exists>d2 moving_image T result.
             initialization fresh_registration d1 = Inr (d2, moving_image, T) \<and>
             register_images plain_toolkit (registration fresh_registration) fixed_image
               (resample_image plain_toolkit moving_image T) = Inr result \<and>
             get_final_transform finished_registration
               = Some (combine_transforms (euler_affine T) result)))"
    by simp_all
  then obtain d1 fixed_image where
    d1: "set_active_image (fixed_index fresh_registration)
           (channel (options fresh_registration)) (scale (options fresh_registration))
           Original (data fresh_registration) = Inr d1"
    and f: "get_itk_image d1 = Inr fixed_image"
    and rest: "if skip_requested plain_toolkit fresh_registration d1
          then get_final_transform finished_registration
                 = get_final_transform fresh_registration
          else (\<exists>d2 moving_image T result.
             initialization fresh_registration d1 = Inr (d2, moving_image, T) \<and>
             register_images plain_toolkit (registration fresh_registration) fixed_image
               (resample_image plain_toolkit moving_image T) = Inr result \<and>
             get_final_transform finished_registration
               = Some (combine_transforms (euler_affine T) result))"
    by blast
  from d1 have d1': "set_active_image 0 0 100 Original two_views = Inr d1"
    by (simp add: fresh_registration_def new_registration_def correlation_options_def)
  from no_skip [OF d1'] rest d1' f first show ?thesis by auto
qed

section \<open>The import script: transforms follow registered views\<close>

lemma add_registered_image_Inr:
  "add_registered_image v sc ix ch d = Inr d' \<Longrightarrow>
   d' = d\<lparr>views := (views d)((Registered, sc, ix, ch) \<mapsto> v)\<rparr>"
  by (auto simp: add_registered_image_def split: option.splits)

lemma resample_missing_Inr:
  assumes "resample_missing env path sc ix ch an d = Inr d'"
  shows "\<exists>v. views d' = (views d)((Registered, sc, ix, ch) \<mapsto> v) \<and>
             transforms d' = transforms d"
  using assms
  by (auto simp: resample_missing_def split: sum.splits option.splits
      dest!: set_active_image_Inr add_registered_image_Inr)

text \<open>The archive that reaches \<^verbatim>\<open>add_transform\<close> has a registered view under the key,
  the transforms it had, and every view it had.\<close>

lemma before_add_transform:
  assumes "(if \<not> check_if_exists Registered ix ch sc d
            then resample_missing env path sc ix ch an d else Inr d) = Inr d3"
  shows "views d3 (Registered, sc, ix, ch) \<noteq> None \<and> transforms d3 = transforms d \<and>
         (\<forall>k. views d k \<noteq> None \<longrightarrow> views d3 k \<noteq> None)"
proof (cases "check_if_exists Registered ix ch sc d")
  case True
  with assms show ?thesis by (auto simp: check_if_exists_def split: option.splits)
next
  case False
  with assms have "resample_missing env path sc ix ch an d = Inr d3" by simp
  from resample_missing_Inr [OF this] show ?thesis by auto
qed

lemma store_transform_no_missing:
  "store_transform env path sc ix ch an d \<noteq> Inl MissingRegisteredViewError"
proof
  assume a: "store_transform env path sc ix ch an d = Inl MissingRegisteredViewError"
  show False
  proof (cases "if \<not> check_if_exists Registered ix ch sc d
            then resample_missing env path sc ix ch an d else Inr d")
    case (Inl e)
    with a have "e = MissingRegisteredViewError"
      by (simp add: store_transform_def)
    with Inl show False
      by (auto simp: resample_missing_def set_active_image_def get_itk_image_def active_view_def
          add_registered_image_def split: if_splits sum.splits option.splits)
  next
    case (Inr d3)
    from before_add_transform [OF Inr] have "views d3 (Registered, sc, ix, ch) \<noteq> None" by simp
    with a Inr show False
      by (auto simp: store_transform_def add_transform_def split: option.splits)
  qed
qed

lemma store_transform_no_orphans:
  assumes "store_transform env path sc ix ch an d = Inr d'" and "no_orphans d"
  shows "no_orphans d'"
proof -
  from assms(1) obtain d3 t where
    d3: "(if \<not> check_if_exists Registered ix ch sc d
            then resample_missing env path sc ix ch an d else Inr d) = Inr d3"
    and t: "add_transform sc ix ch t d3 = Inr d'"
    by (auto simp: store_transform_def split: sum.splits option.splits)
  from before_add_transform [OF d3] have
    v: "views d3 (Registered, sc, ix, ch) \<noteq> None" and tr: "transforms d3 = transforms d"
    and mono: "\<forall>k. views d k \<noteq> None \<longrightarrow> views d3 k \<noteq> None" by simp_all
  from t have d': "d' = d3\<lparr>transforms := (transforms d3)((sc, ix, ch) \<mapsto> t)\<rparr>"
    by (auto simp: add_transform_def split: option.splits)
  show ?thesis
    unfolding no_orphans_def
  proof (intro allI impI)
    fix a b c assume "transforms d' (a, b, c) \<noteq> None"
    then consider "(a, b, c) = (sc, ix, ch)" | "transforms d (a, b, c) \<noteq> None"
      unfolding d' using tr by (auto split: if_splits)
    then show "views d' (Registered, a, b, c) \<noteq> None"
    proof cases
      case 1
      with v show ?thesis unfolding d' by simp
    next
      case 2
      with assms(2) have "views d (Registered, a, b, c) \<noteq> None" by (simp add: no_orphans_def)
      with mono show ?thesis unfolding d' by simp
    qed
  qed
qed

lemma import_transform_no_missing:
  "import_transform env pc dir nm t d \<noteq> Inl MissingRegisteredViewError"
  by (auto simp: import_transform_def Let_def store_transform_no_missing split: option.splits)

lemma import_transform_no_orphans:
  "import_transform env pc dir nm t d = Inr d' \<Longrightarrow> no_orphans d \<Longrightarrow> no_orphans d'"
  by (auto simp: import_transform_def Let_def split: option.splits if_splits
      dest: store_transform_no_orphans)

text \<open>
  C4: in the loop of \<^verbatim>\<open>main\<close> that adds the transforms, \<^verbatim>\<open>add_transform\<close> is only called
  for a key under which the archive has a registered view, one that was there or one that
  the same pass has just added: the loop never ends in the error that \<^verbatim>\<open>add_transform\<close>
  raises for a missing registered view. So when the archive had no orphaned transform
  before the loop, it has none when the loop has run to its end.
\<close>

theorem C4_transforms_follow_views:
  assumes "no_orphans d"
  shows "import_transforms env pc dir nm names d \<noteq> Inl MissingRegisteredViewError \<and>
         (\<forall>d'. import_transforms env pc dir nm names d = Inr d' \<longrightarrow> no_orphans d')"
  using assms
proof (induction names arbitrary: d)
  case Nil
  then show ?case by simp
next
  case (Cons t names)
  show ?case
  proof (cases "import_transform env pc dir nm t d")
    case (Inl e)
    with import_transform_no_missing [of env pc dir nm t d] show ?thesis by auto
  next
    case (Inr d1)
    from import_transform_no_orphans [OF Inr Cons.prems] have "no_orphans d1" .
    from Cons.IH [OF this] Inr show ?thesis by simp
  qed
qed

lemma import_run:
  "import_transforms plain_readers params_c_value ''/data'' (Some (last file_names)) file_names
     imported_views = Inr imported_result"
  by (simp add: file_names_def import_transform_def params_c_value_def endswith_def
      split_str_def Let_def path_join_def store_transform_def check_if_exists_def
      imported_views_def resample_missing_def set_active_image_def get_itk_image_def
      active_view_def plain_readers_def add_registered_image_def add_transform_def
      imported_result_def)

theorem C4_witness:
  "no_orphans imported_views \<and>
   import_transforms plain_readers params_c_value ''/data'' (Some (last file_names)) file_names
     imported_views = Inr imported_result \<and>
   no_orphans imported_result \<and>
   transforms imported_result (''100'', ''1'', ''0'') = Some sample_entry \<and>
   views imported_result (Registered, ''100'', ''1'', ''0'')
     = Some \<lparr>view_image = small_image, view_angle = ''30''\<rparr>"
proof -
  have start: "no_orphans imported_views"
    by (simp add: no_orphans_def imported_views_def)
  from C4_transforms_follow_views [OF start, of plain_readers params_c_value "''/data''"
      "Some (last file_names)" file_names] import_run
  have "no_orphans imported_result" by simp
  with start import_run show ?thesis
    by (simp add: imported_result_def)
qed

section \<open>Division that tolerates zeros: the result is finite\<close>

lemma nan_to_num1_finite: "is_finite (nan_to_num1 x)"
  by (cases x) simp_all

text \<open>
  C10: for two arrays of one shape, \<^verbatim>\<open>safe_divide\<close> returns an array of that shape (the
  function of the model has no failing branch) in which every element is finite; where
  the quotient of the two elements is not-a-number or plus infinity the element is 0, and
  where the quotient is finite the element is the quotient. (Where the quotient is minus
  infinity the element is the most negative finite value.)
\<close>

theorem C10_safe_divide:
  assumes "shape numerator = shape denominator"
    and "length (flat numerator) = length (flat denominator)"
  shows "shape (safe_divide numerator denominator) = shape numerator \<and>
         length (flat (safe_divide numerator denominator)) = length (flat numerator) \<and>
         (\<forall>i < length (flat numerator).
            is_finite (flat (safe_divide numerator denominator) ! i) \<and>
            (fl_div (flat numerator ! i) (flat denominator ! i) = NaN \<or>
             fl_div (flat numerator ! i) (flat denominator ! i) = PInf \<longrightarrow>
               flat (safe_divide numerator denominator) ! i = Fin 0) \<and>
            (is_finite (fl_div (flat numerator ! i) (flat denominator ! i)) \<longrightarrow>
               flat (safe_divide numerator denominator) ! i
                 = fl_div (flat numerator ! i) (flat denominator ! i)))"
proof (intro conjI allI impI)
  show "shape (safe_divide numerator denominator) = shape numerator"
    by (simp add: safe_divide_def Let_def nan_to_num_def true_divide_def)
  show len: "length (flat (safe_divide numerator denominator)) = length (flat numerator)"
    using assms(2) by (simp add: safe_divide_def Let_def nan_to_num_def true_divide_def)
  fix i assume i: "i < length (flat numerator)"
  let ?q = "fl_div (flat numerator ! i) (flat denominator ! i)"
  have r: "flat (safe_divide numerator denominator) ! i
             = nan_to_num1 (if ?q = PInf then Fin 0 else ?q)"
    using i assms(2) by (simp add: safe_divide_def Let_def nan_to_num_def true_divide_def)
  show "is_finite (flat (safe_divide numerator denominator) ! i)"
    unfolding r by (rule nan_to_num1_finite)
  show "flat (safe_divide numerator denominator) ! i = Fin 0" if "?q = NaN \<or> ?q = PInf"
    using that unfolding r by auto
  show "flat (safe_divide numerator denominator) ! i = ?q" if "is_finite ?q"
    using that unfolding r by (cases ?q) simp_all
qed

theorem C10_witness:
  "shape (safe_divide some_numerators some_denominators) = [2, 2] \<and>
   flat (safe_divide some_numerators some_denominators)
     = [Fin 0, Fin 0, Fin (- finfo_max), Fin 2] \<and>
   list_all is_finite (flat (safe_divide some_numerators some_denominators))"
proof -
  have v: "flat (safe_divide some_numerators some_denominators)
     = [Fin 0, Fin 0, Fin (- finfo_max), Fin 2]"
    by (simp add: safe_divide_def some_numerators_def some_denominators_def true_divide_def
        Let_def nan_to_num_def fl_div_def signed_inf_def signed_zero_def)
  from C10_safe_divide [of some_numerators some_denominators]
  have "shape (safe_divide some_numerators some_denominators) = [2, 2]"
    by (simp add: some_numerators_def some_denominators_def)
  with v show ?thesis by simp
qed

section \<open>The coherent images: no call returns\<close>

lemma get_coherent_images_raises: "\<exists>e. get_coherent_images psf stack = Inl e"
  by (auto simp: get_coherent_images_def Let_def split: sum.splits)

lemma get_coherent_images_turned:
  "get_coherent_images turned_psf small_stack = Inl (AttributeError ''ndimage'')"
  by (simp add: get_coherent_images_def Let_def angle_or_0_def turned_psf_def small_stack_def)

text \<open>
  C8: the claim is what the docstring of \<^verbatim>\<open>get_coherent_images\<close> promises (the center of
  the point spread function shifted to the origin, the point spread function normalized),
  and the code does not get there. For a point spread function and a stack of the same
  angle and the same voxel sizes the call ends in \<^verbatim>\<open>NameError\<close> for the name \<^verbatim>\<open>FFTTasks\<close>,
  before the shift and the division by the sum; no point spread function is returned.
\<close>

theorem C8_failing_input:
  "get_coherent_images centered_psf small_stack = Inl (NameError ''FFTTasks'')"
  by (simp add: get_coherent_images_def Let_def angle_or_0_def allclose_def
      broadcast_pairs_def centered_psf_def small_stack_def)

end
